theory Spec2Isabelle
  imports Main "HOL-Library.Sublist"
begin

section \<open>JavaScript values, exceptions and objects\<close>

text \<open>
  A value that a \<^verbatim>\<open>throw\<close> or a rejected promise carries. The handlers of this
  program only ask \<^verbatim>\<open>err instanceof Error\<close> and then read \<^verbatim>\<open>err.message\<close>, so a
  thrown value is either an Error object with its message or something else.
\<close>

datatype thrown = ErrorObject string | OtherValue

text \<open>\<^verbatim>\<open>err instanceof Error ? err.message : fallback\<close>\<close>

fun message_or :: "thrown \<Rightarrow> string \<Rightarrow> string" where
  "message_or (ErrorObject m) fallback = m"
| "message_or OtherValue fallback = fallback"

text \<open>
  A plain object is the list of its own properties in insertion order. Assigning a
  property replaces the value in place when the key exists and appends it otherwise;
  the spread \<^verbatim>\<open>{...a, ...b}\<close> assigns the properties of \<open>b\<close> to a copy of \<open>a\<close>.
\<close>

fun set_prop :: "string \<Rightarrow> 'v \<Rightarrow> (string \<times> 'v) list \<Rightarrow> (string \<times> 'v) list" where
  "set_prop k v [] = [(k, v)]"
| "set_prop k v (p # ps) = (if fst p = k then (k, v) # ps else p # set_prop k v ps)"

fun spread :: "(string \<times> 'v) list \<Rightarrow> (string \<times> 'v) list \<Rightarrow> (string \<times> 'v) list" where
  "spread obj [] = obj"
| "spread obj (p # ps) = spread (set_prop (fst p) (snd p) obj) ps"

text \<open>The values \<^verbatim>\<open>JSON.parse\<close> can return.\<close>

datatype json =
    JNull
  | JBool bool
  | JNumber int
  | JString string
  | JArray "json list"
  | JObject "(string \<times> json) list"

text \<open>Truthiness, as \<^verbatim>\<open>&&\<close>, \<^verbatim>\<open>||\<close>, \<^verbatim>\<open>!\<close> and \<^verbatim>\<open>if\<close> test it.\<close>

fun truthy :: "json \<Rightarrow> bool" where
  "truthy JNull = False"
| "truthy (JBool b) = b"
| "truthy (JNumber n) = (n \<noteq> 0)"
| "truthy (JString s) = (s \<noteq> [])"
| "truthy (JArray xs) = True"
| "truthy (JObject kvs) = True"

text \<open>
  A string that may be \<^verbatim>\<open>null\<close> or \<^verbatim>\<open>undefined\<close> is a \<open>string option\<close>; it is
  truthy when it is present and not the empty string.
\<close>

fun truthy_str :: "string option \<Rightarrow> bool" where
  "truthy_str None = False"
| "truthy_str (Some s) = (s \<noteq> [])"

text \<open>
  Reading a property of a non-null value: \<open>None\<close> is \<^verbatim>\<open>undefined\<close>. Only objects
  carry the properties this program reads.
\<close>

fun get_prop :: "json \<Rightarrow> string \<Rightarrow> json option" where
  "get_prop (JObject kvs) k = map_of kvs k"
| "get_prop v k = None"

text \<open>\<^verbatim>\<open>s.includes(t)\<close>: \<open>t\<close> occurs in \<open>s\<close> as a contiguous substring.\<close>

fun str_includes :: "string \<Rightarrow> string \<Rightarrow> bool" where
  "str_includes [] t = (t = [])"
| "str_includes (c # cs) t = (prefix t (c # cs) \<or> str_includes cs t)"

text \<open>
  \<^verbatim>\<open>s.replace(pat, rep)\<close> with a string pattern: the first occurrence only.
\<close>

fun replace_first :: "string \<Rightarrow> string \<Rightarrow> string \<Rightarrow> string" where
  "replace_first pat rep [] = (if pat = [] then rep else [])"
| "replace_first pat rep (c # cs) =
     (if prefix pat (c # cs) then rep @ drop (length pat) (c # cs)
      else c # replace_first pat rep cs)"

text \<open>
  \<^verbatim>\<open>s.toLowerCase()\<close> and \<^verbatim>\<open>s.trim()\<close> belong to the platform (they follow the
  Unicode case mappings and the Unicode white space) and are parameters of the
  definitions that call them. The two functions below are what they compute on ASCII
  text: the letters A to Z mapped to a to z, and tab, line feed, vertical tab, form
  feed, carriage return and space removed at both ends. They serve to run the
  definitions on ASCII samples.
\<close>

definition lower_char :: "char \<Rightarrow> char" where
  "lower_char c =
     (case map_of (zip ''ABCDEFGHIJKLMNOPQRSTUVWXYZ'' ''abcdefghijklmnopqrstuvwxyz'') c of
        Some l \<Rightarrow> l
      | None \<Rightarrow> c)"

definition ascii_toLowerCase :: "string \<Rightarrow> string" where
  "ascii_toLowerCase s = map lower_char s"

definition is_space :: "char \<Rightarrow> bool" where
  "is_space c = (c \<in> set [CHR 0x09, CHR 0x0A, CHR 0x0B, CHR 0x0C, CHR 0x0D, CHR '' ''])"

definition ascii_trim :: "string \<Rightarrow> string" where
  "ascii_trim s = rev (dropWhile is_space (rev (dropWhile is_space s)))"

text \<open>A number in a template string or under \<^verbatim>\<open>toString()\<close>: decimal digits.\<close>

fun show_nat :: "nat \<Rightarrow> string" where
  "show_nat n =
     (if n < 10 then [''0123456789'' ! n]
      else show_nat (n div 10) @ [''0123456789'' ! (n mod 10)])"

definition show_int :: "int \<Rightarrow> string" where
  "show_int i = (if i < 0 then ''-'' @ show_nat (nat (- i)) else show_nat (nat i))"

section \<open>The Auth Store (utils/auth.ts)\<close>

text \<open>
  The browser as the Auth Store sees it: whether \<^verbatim>\<open>window\<close> is defined (it is not
  during server rendering) and \<^verbatim>\<open>localStorage\<close>, whose every access throws when the
  backend is unavailable.
\<close>

datatype localStorage = Unavailable thrown | Store "(string \<times> string) list"

record browser =
  has_window :: bool
  storage :: localStorage

fun getItem :: "localStorage \<Rightarrow> string \<Rightarrow> thrown + string option" where
  "getItem (Unavailable e) k = Inl e"
| "getItem (Store kvs) k = Inr (map_of kvs k)"

fun setItem :: "localStorage \<Rightarrow> string \<Rightarrow> string \<Rightarrow> thrown + localStorage" where
  "setItem (Unavailable e) k v = Inl e"
| "setItem (Store kvs) k v = Inr (Store (set_prop k v kvs))"

text \<open>
  \<^verbatim>\<open>userStr ? JSON.parse(userStr) : null\<close>. \<^verbatim>\<open>JSON.parse\<close> belongs to the platform
  and is a parameter: it returns the parsed value or throws a SyntaxError.
\<close>

definition parse_if_present :: "(string \<Rightarrow> thrown + json) \<Rightarrow> string option \<Rightarrow> thrown + json" where
  "parse_if_present JSON_parse userStr =
     (if truthy_str userStr then JSON_parse (the userStr) else Inr JNull)"

text \<open>\<^verbatim>\<open>!!(token && user && user.role === 'admin')\<close>\<close>

definition is_admin_session :: "string option \<Rightarrow> json \<Rightarrow> bool" where
  "is_admin_session token user =
     (truthy_str token \<and> truthy user \<and> get_prop user ''role'' = Some (JString ''admin''))"

subsection \<open>The copy whose reads are wrapped in try/catch\<close>

definition getStoredToken :: "browser \<Rightarrow> thrown + string option" where
  "getStoredToken b =
     (if \<not> has_window b then Inr None
      else case getItem (storage b) ''token'' of
             Inr v \<Rightarrow> Inr v
           | Inl e \<Rightarrow> Inr None)"

definition getStoredUser :: "(string \<Rightarrow> thrown + json) \<Rightarrow> browser \<Rightarrow> thrown + json" where
  "getStoredUser JSON_parse b =
     (if \<not> has_window b then Inr JNull
      else case (case getItem (storage b) ''user'' of
                   Inl e \<Rightarrow> Inl e
                 | Inr userStr \<Rightarrow> parse_if_present JSON_parse userStr) of
             Inr v \<Rightarrow> Inr v
           | Inl e \<Rightarrow> Inr JNull)"

definition isAuthenticated :: "(string \<Rightarrow> thrown + json) \<Rightarrow> browser \<Rightarrow> thrown + bool" where
  "isAuthenticated JSON_parse b =
     (case (case getStoredToken b of
              Inl e \<Rightarrow> Inl e
            | Inr token \<Rightarrow>
                (case getStoredUser JSON_parse b of
                   Inl e \<Rightarrow> Inl e
                 | Inr user \<Rightarrow> Inr (is_admin_session token user))) of
        Inr r \<Rightarrow> Inr r
      | Inl e \<Rightarrow> Inr False)"

text \<open>
  \<^verbatim>\<open>redirectIfNotAuthenticated(router)\<close>: the result and the routes pushed to the
  router.
\<close>

definition redirectIfNotAuthenticated ::
  "(string \<Rightarrow> thrown + json) \<Rightarrow> browser \<Rightarrow> thrown + (bool \<times> string list)" where
  "redirectIfNotAuthenticated JSON_parse b =
     (case isAuthenticated JSON_parse b of
        Inl e \<Rightarrow> Inl e
      | Inr ok \<Rightarrow> if \<not> ok then Inr (False, [''/login'']) else Inr (True, []))"

subsection \<open>The copy without try/catch\<close>

definition getStoredToken_plain :: "browser \<Rightarrow> thrown + string option" where
  "getStoredToken_plain b =
     (if \<not> has_window b then Inr None else getItem (storage b) ''token'')"

definition getStoredUser_plain :: "(string \<Rightarrow> thrown + json) \<Rightarrow> browser \<Rightarrow> thrown + json" where
  "getStoredUser_plain JSON_parse b =
     (if \<not> has_window b then Inr JNull
      else case getItem (storage b) ''user'' of
             Inl e \<Rightarrow> Inl e
           | Inr userStr \<Rightarrow> parse_if_present JSON_parse userStr)"

definition isAuthenticated_plain :: "(string \<Rightarrow> thrown + json) \<Rightarrow> browser \<Rightarrow> thrown + bool" where
  "isAuthenticated_plain JSON_parse b =
     (case getStoredToken_plain b of
        Inl e \<Rightarrow> Inl e
      | Inr token \<Rightarrow>
          (case getStoredUser_plain JSON_parse b of
             Inl e \<Rightarrow> Inl e
           | Inr user \<Rightarrow> Inr (is_admin_session token user)))"

text \<open>
  A parser given by the finite table of the texts it accepts; every other text is a
  SyntaxError. It serves to run the definitions on sample stores: the general lemmas
  below hold for every parser.
\<close>

definition parse_table :: "(string \<times> json) list \<Rightarrow> string \<Rightarrow> thrown + json" where
  "parse_table tbl s =
     (case map_of tbl s of
        Some v \<Rightarrow> Inr v
      | None \<Rightarrow> Inl (ErrorObject ''Unexpected token in JSON''))"

subsection \<open>The authenticated request helper\<close>

text \<open>
  \<^verbatim>\<open>HeadersInit\<close>: a plain object, a \<^verbatim>\<open>Headers\<close> instance, or an array of
  name-value pairs. The value of a property of a plain object is a string or, once
  an array of pairs has been spread into it, one of the pairs.
\<close>

datatype header_value = Text string | Entry string string

datatype headersInit =
    Record "(string \<times> header_value) list"
  | HeadersInstance "(string \<times> string) list"
  | Pairs "(string \<times> string) list"

text \<open>
  What \<^verbatim>\<open>...options.headers\<close> copies, the own enumerable properties: those of a
  plain object; none for \<^verbatim>\<open>undefined\<close> and for a \<^verbatim>\<open>Headers\<close> instance, which keeps
  its entries in internal slots; for an array, its elements under their indices.
\<close>

fun index_props :: "nat \<Rightarrow> (string \<times> string) list \<Rightarrow> (string \<times> header_value) list" where
  "index_props i [] = []"
| "index_props i (p # ps) = (show_nat i, Entry (fst p) (snd p)) # index_props (Suc i) ps"

fun own_props :: "headersInit option \<Rightarrow> (string \<times> header_value) list" where
  "own_props None = []"
| "own_props (Some (Record kvs)) = kvs"
| "own_props (Some (HeadersInstance hs)) = []"
| "own_props (Some (Pairs ps)) = index_props 0 ps"

text \<open>
  The \<^verbatim>\<open>RequestInit\<close> fields this program sets; the record's extension stands for
  every other option, which \<^verbatim>\<open>...options\<close> copies. \<open>None\<close> is an option left
  undefined. Every body this program sends is \<^verbatim>\<open>JSON.stringify\<close> of an object of
  strings; \<open>body\<close> is that object.
\<close>

record requestInit =
  http_method :: "string option"
  headers :: "headersInit option"
  body :: "(string \<times> string) list option"

text \<open>\<^verbatim>\<open>...(token && { Authorization: `Bearer ${token}` })\<close>\<close>

definition bearer_part :: "string option \<Rightarrow> (string \<times> header_value) list" where
  "bearer_part token =
     (if truthy_str token then [(''Authorization'', Text (''Bearer '' @ the token))] else [])"

text \<open>
  \<^verbatim>\<open>{ 'Content-Type': 'application/json', ...(token && {...}), ...options.headers }\<close>
\<close>

definition merged_headers ::
  "string option \<Rightarrow> headersInit option \<Rightarrow> (string \<times> header_value) list" where
  "merged_headers token hs =
     spread (spread [(''Content-Type'', Text ''application/json'')] (bearer_part token))
       (own_props hs)"

text \<open>
  \<^verbatim>\<open>authenticatedFetch(url, options)\<close>: what it hands to \<^verbatim>\<open>fetch\<close>, namely the URL
  and \<^verbatim>\<open>{ ...options, headers }\<close>. The first definition reads the token with the
  guarded \<open>getStoredToken\<close>, the second with the plain one.
\<close>

definition authenticatedFetch ::
  "browser \<Rightarrow> string \<Rightarrow> 'z requestInit_scheme \<Rightarrow> thrown + (string \<times> 'z requestInit_scheme)" where
  "authenticatedFetch b url options =
     (case getStoredToken b of
        Inl e \<Rightarrow> Inl e
      | Inr token \<Rightarrow> Inr (url, options\<lparr>headers := Some (Record (merged_headers token (headers options)))\<rparr>))"


section \<open>The edge middleware (middleware.ts)\<close>

text \<open>
  A request as the middleware reads it: the path, the cookies by name and the headers
  as \<^verbatim>\<open>headers.get\<close> returns them.
\<close>

record nextRequest =
  pathname :: string
  cookies :: "(string \<times> string) list"
  req_headers :: "(string \<times> string) list"

datatype nextResponse = Redirect string | Next

definition protectedPaths :: "string list" where
  "protectedPaths = [''/dashboard'']"

text \<open>\<^verbatim>\<open>a || b\<close> on strings that may be undefined.\<close>

definition or_else :: "string option \<Rightarrow> string option \<Rightarrow> string option" where
  "or_else a b = (if truthy_str a then a else b)"

definition middleware :: "nextRequest \<Rightarrow> nextResponse" where
  "middleware request =
     (let isProtectedPath = list_ex (\<lambda>path. prefix path (pathname request)) protectedPaths;
          token = or_else (map_of (cookies request) ''token'')
                    (map_option (replace_first ''Bearer '' [])
                       (map_of (req_headers request) ''Authorization''))
      in if isProtectedPath \<and> \<not> truthy_str token then Redirect ''/login''
         else if pathname request = ''/login''
                 \<and> truthy_str (map_of (cookies request) ''token'') then Redirect ''/dashboard''
         else Next)"

text \<open>
  \<^verbatim>\<open>config.matcher\<close>: the framework runs the middleware only for the paths that one
  of these patterns matches, and lets every other request through. Of the pattern
  language, the two forms that occur are covered: a literal path matches itself, and
  \<^verbatim>\<open>base/:path*\<close> matches \<open>base\<close> followed by zero or more segments.
\<close>

definition matcher :: "string list" where
  "matcher = [''/admin/:path*'', ''/login'']"

definition matches :: "string \<Rightarrow> string \<Rightarrow> bool" where
  "matches pat p =
     (let n = length pat - 7; base = take n pat
      in if drop n pat = ''/:path*'' then p = base \<or> prefix (base @ ''/'') p
         else p = pat)"

definition edge :: "nextRequest \<Rightarrow> nextResponse" where
  "edge request =
     (if list_ex (\<lambda>pat. matches pat (pathname request)) matcher then middleware request
      else Next)"

text \<open>
  The dashboard page's mount effect: the routes pushed, and whether the page went on
  to load the user (\<^verbatim>\<open>setUser\<close>, \<^verbatim>\<open>setIsLoading(false)\<close>).
\<close>

definition dashboard_mount ::
  "(string \<Rightarrow> thrown + json) \<Rightarrow> browser \<Rightarrow> thrown + (string list \<times> json option)" where
  "dashboard_mount JSON_parse b =
     (case redirectIfNotAuthenticated JSON_parse b of
        Inl e \<Rightarrow> Inl e
      | Inr (ok, pushed) \<Rightarrow>
          if \<not> ok then Inr (pushed, None)
          else (case getStoredUser JSON_parse b of
                  Inl e \<Rightarrow> Inl e
                | Inr userData \<Rightarrow> Inr (pushed, Some userData)))"

section \<open>The list views (components)\<close>

subsection \<open>Requests and responses\<close>

text \<open>
  A call of \<^verbatim>\<open>fetch\<close>: the URL up to the query string, the query parameters and the
  options.
\<close>

record fetchCall =
  target :: string
  params :: "(string \<times> string) list"
  init :: requestInit

text \<open>
  What the awaited \<^verbatim>\<open>fetch\<close> gives: a rejection (network failure), or a response
  with its status code and the outcome of \<^verbatim>\<open>response.json()\<close>, which rejects when
  the body is not JSON.
\<close>

datatype 'b response = Response (http_status: nat) (json_result: "thrown + 'b")

datatype 'b fetched = Rejected thrown | Resolved "'b response"

text \<open>\<^verbatim>\<open>response.ok\<close>\<close>

definition ok :: "'b response \<Rightarrow> bool" where
  "ok r = (200 \<le> http_status r \<and> http_status r \<le> 299)"

text \<open>The envelopes, as the interfaces \<^verbatim>\<open>ApiResponse\<close> declare them.\<close>

record paginationInfo =
  total :: int
  page :: int
  limit :: int
  pages :: int

record 'a apiResponse =
  status :: string
  data :: "'a list"

record 'a historyResponse = "'a apiResponse" +
  pagination :: paginationInfo

text \<open>
  Networks on which the definitions are run below: one where every call fails, and
  one that answers every call with the same response.
\<close>

definition offline :: "fetchCall \<Rightarrow> 'b fetched" where
  "offline call = Rejected (ErrorObject ''Failed to fetch'')"

definition answering :: "nat \<Rightarrow> (thrown + 'b) \<Rightarrow> fetchCall \<Rightarrow> 'b fetched" where
  "answering st b call = Resolved (Response st b)"

subsection \<open>View state and the calls of its setters\<close>

text \<open>
  The state hooks that the three views share: the fetched records (\<^verbatim>\<open>users\<close>,
  \<^verbatim>\<open>activeSessions\<close>, \<^verbatim>\<open>historyRecords\<close>), \<^verbatim>\<open>isLoading\<close> and \<^verbatim>\<open>error\<close>.
  A fetch is modelled by the setter calls it makes, in order; the state after it is
  the state before with those calls applied one after the other.
\<close>

record 'a listView =
  records :: "'a list"
  isLoading :: bool
  error :: "string option"

datatype 'a setter =
    SetRecords "'a list"
  | SetPagination paginationInfo
  | SetIsLoading bool
  | SetError "string option"

text \<open>
  The users view and the active-sessions view have no pagination state, and their
  fetches never call \<open>SetPagination\<close>.
\<close>

fun apply_setter :: "'a setter \<Rightarrow> ('a, 'z) listView_scheme \<Rightarrow> ('a, 'z) listView_scheme" where
  "apply_setter (SetRecords xs) s = s\<lparr>records := xs\<rparr>"
| "apply_setter (SetPagination p) s = s"
| "apply_setter (SetIsLoading b) s = s\<lparr>isLoading := b\<rparr>"
| "apply_setter (SetError e) s = s\<lparr>error := e\<rparr>"

definition run_setters ::
  "'a setter list \<Rightarrow> ('a, 'z) listView_scheme \<Rightarrow> ('a, 'z) listView_scheme" where
  "run_setters cs s = fold apply_setter cs s"

subsection \<open>The part of the try block that the three fetches share\<close>

definition http_failure :: "nat \<Rightarrow> thrown" where
  "http_failure st =
     (if st = 401 then ErrorObject ''Authentication failed. Please login again.''
      else if st = 403 then ErrorObject ''Access denied. Admin privileges required.''
      else ErrorObject (''HTTP error! status: '' @ show_nat st))"

definition bearer_init ::
  "string \<Rightarrow> string \<Rightarrow> (string \<times> string) list option \<Rightarrow> requestInit" where
  "bearer_init m auth b =
     \<lparr>http_method = Some m,
      headers = Some (Record [(''Authorization'', Text (''Bearer '' @ auth)),
                              (''Content-Type'', Text ''application/json'')]),
      body = b\<rparr>"

text \<open>
  From \<^verbatim>\<open>const auth = getStoredToken()\<close> to \<^verbatim>\<open>await response.json()\<close>: the token
  read (\<open>auth\<close> is the outcome of the call, which in the plain copy of the store may
  throw), the request built from the token (building it may throw), the fetch, and
  the status check. The result is the calls of \<^verbatim>\<open>fetch\<close> made, and the parsed body
  or the value thrown.
\<close>

definition get_json ::
  "(thrown + string option) \<Rightarrow> (string \<Rightarrow> thrown + fetchCall) \<Rightarrow> (fetchCall \<Rightarrow> 'b fetched)
     \<Rightarrow> fetchCall list \<times> (thrown + 'b)" where
  "get_json auth build net =
     (case auth of
        Inl e \<Rightarrow> ([], Inl e)
      | Inr tok \<Rightarrow>
          if \<not> truthy_str tok then ([], Inl (ErrorObject ''No authentication token found''))
          else (case build (the tok) of
                  Inl e \<Rightarrow> ([], Inl e)
                | Inr call \<Rightarrow>
                    (case net call of
                       Rejected e \<Rightarrow> ([call], Inl e)
                     | Resolved r \<Rightarrow>
                         if \<not> ok r then ([call], Inl (http_failure (http_status r)))
                         else ([call], json_result r))))"

text \<open>\<^verbatim>\<open>if (result.status === 'success') ... else throw new Error(failure)\<close>\<close>

definition require_success ::
  "string \<Rightarrow> (thrown + ('a, 'z) apiResponse_scheme) \<Rightarrow> thrown + ('a, 'z) apiResponse_scheme" where
  "require_success failure r =
     (case r of
        Inl e \<Rightarrow> Inl e
      | Inr result \<Rightarrow> if status result = ''success'' then Inr result
                      else Inl (ErrorObject failure))"

text \<open>The catch block and the finally block.\<close>

definition catch_finally :: "string \<Rightarrow> (thrown + 'a setter list) \<Rightarrow> 'a setter list" where
  "catch_finally fallback r =
     (case r of
        Inr on_success \<Rightarrow> on_success
      | Inl err \<Rightarrow> [SetError (Some (message_or err fallback))])
     @ [SetIsLoading False]"

subsection \<open>UsersManagement.fetchUsers and ActiveParking.fetchActiveParkingSessions\<close>

definition users_call :: "string \<Rightarrow> fetchCall" where
  "users_call tok =
     \<lparr>target = ''https://smartpark-backend.vercel.app/api/users/all'',
      params = [], init = bearer_init ''GET'' tok None\<rparr>"

definition active_call :: "string \<Rightarrow> fetchCall" where
  "active_call tok =
     \<lparr>target = ''https://smartpark-backend.vercel.app/api/parking/admin/active'',
      params = [], init = bearer_init ''GET'' tok None\<rparr>"

definition fetchUsers ::
  "(thrown + string option) \<Rightarrow> (fetchCall \<Rightarrow> 'a apiResponse fetched)
     \<Rightarrow> 'a setter list \<times> fetchCall list" where
  "fetchUsers auth net =
     (let (calls, r) =
            get_json auth (\<lambda>tok. Inr (users_call tok)) net
      in (SetError None
            # catch_finally ''An error occurred while fetching users''
                (map_sum id (\<lambda>result. [SetRecords (data result)])
                   (require_success ''Failed to fetch users data'' r)),
          calls))"

definition fetchActiveParkingSessions ::
  "(thrown + string option) \<Rightarrow> (fetchCall \<Rightarrow> 'a apiResponse fetched)
     \<Rightarrow> 'a setter list \<times> fetchCall list" where
  "fetchActiveParkingSessions auth net =
     (let (calls, r) =
            get_json auth (\<lambda>tok. Inr (active_call tok)) net
      in (SetError None
            # catch_finally ''An error occurred while fetching active parking sessions''
                (map_sum id (\<lambda>result. [SetRecords (data result)])
                   (require_success ''Failed to fetch active parking sessions'' r)),
          calls))"

subsection \<open>ParkingHistory\<close>

record 'a historyView = "'a listView" +
  pagination :: paginationInfo
  searchTerm :: string
  selectedPaymentStatus :: string
  startDate :: string
  endDate :: string
  sortBy :: string
  sortOrder :: string

text \<open>The initial values of the state hooks.\<close>

definition initial_history :: "'a historyView" where
  "initial_history =
     \<lparr>records = [], isLoading = True, error = None,
      pagination = \<lparr>total = 0, page = 1, limit = 20, pages = 1\<rparr>,
      searchTerm = [], selectedPaymentStatus = ''all'', startDate = [], endDate = [],
      sortBy = ''in_date'', sortOrder = ''desc''\<rparr>"

fun apply_history_setter :: "'a setter \<Rightarrow> 'a historyView \<Rightarrow> 'a historyView" where
  "apply_history_setter (SetPagination p) s = s\<lparr>historyView.pagination := p\<rparr>"
| "apply_history_setter c s = apply_setter c s"

definition run_history_setters :: "'a setter list \<Rightarrow> 'a historyView \<Rightarrow> 'a historyView" where
  "run_history_setters cs s = fold apply_history_setter cs s"

text \<open>
  The query parameters. \<^verbatim>\<open>new Date(d).toISOString()\<close> belongs to the platform and is
  a parameter; it throws a RangeError when \<open>d\<close> is not a date.
\<close>

definition history_params ::
  "(string \<Rightarrow> thrown + string) \<Rightarrow> 'a historyView \<Rightarrow> thrown + (string \<times> string) list" where
  "history_params toISOString s =
     (let p0 = [(''limit'', show_int (limit (historyView.pagination s))),
                (''page'', show_int (page (historyView.pagination s))),
                (''sortBy'', sortBy s),
                (''sortOrder'', sortOrder s)];
          p1 = (if selectedPaymentStatus s \<noteq> ''all''
                then p0 @ [(''status'', selectedPaymentStatus s)] else p0)
      in case (if startDate s \<noteq> []
               then map_sum id (\<lambda>d. p1 @ [(''startDate'', d)]) (toISOString (startDate s))
               else Inr p1) of
           Inl e \<Rightarrow> Inl e
         | Inr p2 \<Rightarrow>
             if endDate s \<noteq> []
             then map_sum id (\<lambda>d. p2 @ [(''endDate'', d)]) (toISOString (endDate s))
             else Inr p2)"

definition history_call :: "(string \<times> string) list \<Rightarrow> string \<Rightarrow> fetchCall" where
  "history_call ps tok =
     \<lparr>target = ''https://smartpark-backend.vercel.app/api/parking/admin/history'',
      params = ps, init = bearer_init ''GET'' tok None\<rparr>"

definition fetchParkingHistory ::
  "(string \<Rightarrow> thrown + string) \<Rightarrow> 'a historyView \<Rightarrow> (thrown + string option)
     \<Rightarrow> (fetchCall \<Rightarrow> 'a historyResponse fetched) \<Rightarrow> 'a setter list \<times> fetchCall list" where
  "fetchParkingHistory toISOString s auth net =
     (let (calls, r) =
            get_json auth
              (\<lambda>tok. map_sum id (\<lambda>ps. history_call ps tok) (history_params toISOString s))
              net
      in (SetIsLoading True # SetError None
            # catch_finally ''An error occurred while fetching parking history''
                (map_sum id
                   (\<lambda>result. [SetRecords (data result),
                               SetPagination (historyResponse.pagination result)])
                   (require_success ''Failed to fetch parking history'' r)),
          calls))"

text \<open>Sample views and sample envelopes whose status is not \<open>success\<close>.\<close>

definition sample_view :: "nat listView" where
  "sample_view = \<lparr>records = [1, 2], isLoading = True, error = None\<rparr>"

definition sample_history :: "nat historyView" where
  "sample_history = initial_history\<lparr>records := [1, 2]\<rparr>"

definition failed_list :: "nat apiResponse" where
  "failed_list = \<lparr>status = ''error'', data = []\<rparr>"

definition failed_page :: "nat historyResponse" where
  "failed_page =
     \<lparr>status = ''error'', data = [],
      historyResponse.pagination = \<lparr>total = 0, page = 1, limit = 20, pages = 1\<rparr>\<rparr>"

text \<open>The event handlers that set the page.\<close>

definition handlePageChange :: "int \<Rightarrow> 'a historyView \<Rightarrow> 'a historyView" where
  "handlePageChange newPage s =
     s\<lparr>historyView.pagination := (historyView.pagination s)\<lparr>page := newPage\<rparr>\<rparr>"

definition handleApplyFilters :: "'a historyView \<Rightarrow> 'a historyView" where
  "handleApplyFilters s =
     s\<lparr>historyView.pagination := (historyView.pagination s)\<lparr>page := 1\<rparr>\<rparr>"

definition clearFilters :: "'a historyView \<Rightarrow> 'a historyView" where
  "clearFilters s =
     s\<lparr>searchTerm := [], selectedPaymentStatus := ''all'', startDate := [], endDate := [],
       sortBy := ''in_date'', sortOrder := ''desc'',
       historyView.pagination := (historyView.pagination s)\<lparr>page := 1\<rparr>\<rparr>"

text \<open>
  The dependency array of the \<^verbatim>\<open>useCallback\<close> that holds \<^verbatim>\<open>fetchParkingHistory\<close>.
  The only call of the fetch after the mount is the effect
  \<^verbatim>\<open>useEffect(() => { fetchParkingHistory(); }, [fetchParkingHistory])\<close>: the framework
  keeps the callback while every dependency is unchanged and runs the effect after a
  render exactly when the callback is a new one. (The Retry button of the error
  screen calls the fetch directly; no handler does.)
\<close>

definition fetch_deps :: "'a historyView \<Rightarrow> int \<times> int \<times> string \<times> string \<times> string \<times> string \<times> string" where
  "fetch_deps s =
     (page (historyView.pagination s), limit (historyView.pagination s),
      selectedPaymentStatus s, startDate s, endDate s, sortBy s, sortOrder s)"

definition effect_runs :: "'a historyView \<Rightarrow> 'a historyView \<Rightarrow> bool" where
  "effect_runs before after = (fetch_deps after \<noteq> fetch_deps before)"

text \<open>
  A handler followed by the render it causes: the new state, and the setter calls and
  fetches of the effect when it runs.
\<close>

definition handle_then_render ::
  "('a historyView \<Rightarrow> 'a historyView) \<Rightarrow> (string \<Rightarrow> thrown + string) \<Rightarrow> (thrown + string option)
     \<Rightarrow> (fetchCall \<Rightarrow> 'a historyResponse fetched) \<Rightarrow> 'a historyView
     \<Rightarrow> 'a historyView \<times> 'a setter list \<times> fetchCall list" where
  "handle_then_render handler toISOString auth net s =
     (let s' = handler s
      in if effect_runs s s' then (s', fetchParkingHistory toISOString s' auth net)
         else (s', [], []))"

subsection \<open>The client-side search filters\<close>

record activeParkingSession =
  parkID :: string
  userID :: string
  vehicle_plate :: string
  in_date :: string
  out_date :: "string option"
  payment_status :: string
  total_billing :: int
  vehicle_description :: string

record parkingHistoryRecord =
  parkID :: string
  userID :: string
  vehicle_plate :: string
  in_date :: string
  out_date :: string
  payment_status :: string
  total_billing :: int
  user_name :: string
  user_email :: string
  vehicle_description :: string

text \<open>
  The callback of \<^verbatim>\<open>historyRecords.filter\<close> and the filtered list. The first
  argument is the platform's \<^verbatim>\<open>toLowerCase\<close>.
\<close>

definition history_keeps ::
  "(string \<Rightarrow> string) \<Rightarrow> string \<Rightarrow> parkingHistoryRecord \<Rightarrow> bool" where
  "history_keeps toLowerCase term r =
     (if term = [] then True
      else str_includes (toLowerCase (parkingHistoryRecord.vehicle_plate r)) (toLowerCase term)
         \<or> str_includes (toLowerCase (parkingHistoryRecord.vehicle_description r))
              (toLowerCase term)
         \<or> str_includes (toLowerCase (user_name r)) (toLowerCase term)
         \<or> str_includes (toLowerCase (user_email r)) (toLowerCase term))"

definition filteredRecords ::
  "(string \<Rightarrow> string) \<Rightarrow> string \<Rightarrow> parkingHistoryRecord list \<Rightarrow> parkingHistoryRecord list" where
  "filteredRecords toLowerCase term historyRecords =
     filter (history_keeps toLowerCase term) historyRecords"

text \<open>The callback of \<^verbatim>\<open>activeSessions.filter\<close> and the filtered list.\<close>

definition session_matchesSearch ::
  "(string \<Rightarrow> string) \<Rightarrow> string \<Rightarrow> activeParkingSession \<Rightarrow> bool" where
  "session_matchesSearch toLowerCase term session =
     (str_includes (toLowerCase (activeParkingSession.vehicle_plate session)) (toLowerCase term)
      \<or> str_includes (toLowerCase (activeParkingSession.vehicle_description session))
           (toLowerCase term)
      \<or> str_includes (toLowerCase (activeParkingSession.userID session)) (toLowerCase term))"

definition session_matchesPaymentStatus :: "string \<Rightarrow> activeParkingSession \<Rightarrow> bool" where
  "session_matchesPaymentStatus selected session =
     (selected = ''all'' \<or> activeParkingSession.payment_status session = selected)"

definition filteredSessions ::
  "(string \<Rightarrow> string) \<Rightarrow> string \<Rightarrow> string \<Rightarrow> activeParkingSession list
     \<Rightarrow> activeParkingSession list" where
  "filteredSessions toLowerCase term selected activeSessions =
     filter (\<lambda>session. session_matchesSearch toLowerCase term session
                      \<and> session_matchesPaymentStatus selected session) activeSessions"

text \<open>The text fields that each search reads.\<close>

definition history_fields :: "parkingHistoryRecord \<Rightarrow> string list" where
  "history_fields r =
     [parkingHistoryRecord.vehicle_plate r, parkingHistoryRecord.vehicle_description r,
      user_name r, user_email r]"

definition session_fields :: "activeParkingSession \<Rightarrow> string list" where
  "session_fields r =
     [activeParkingSession.vehicle_plate r, activeParkingSession.vehicle_description r,
      activeParkingSession.userID r]"

text \<open>Sample records on which the filters are run below.\<close>

definition sample_record :: parkingHistoryRecord where
  "sample_record =
     \<lparr>parkID = ''P1'', userID = ''U1'', vehicle_plate = ''B 1234 XY'',
      in_date = ''2025-01-01T08:00:00Z'', out_date = ''2025-01-01T09:00:00Z'',
      payment_status = ''paid'', total_billing = 5000,
      user_name = ''Siti'', user_email = ''siti@example.com'',
      vehicle_description = ''Red sedan''\<rparr>"

definition sample_session :: activeParkingSession where
  "sample_session =
     \<lparr>activeParkingSession.parkID = ''P2'', activeParkingSession.userID = ''U7'',
      activeParkingSession.vehicle_plate = ''B 1234 XY'',
      activeParkingSession.in_date = ''2025-01-01T08:00:00Z'',
      activeParkingSession.out_date = None,
      activeParkingSession.payment_status = ''pending'',
      activeParkingSession.total_billing = 0,
      activeParkingSession.vehicle_description = ''Red sedan''\<rparr>"

section \<open>The login page (app/login/page.tsx)\<close>

record user =
  userID :: string
  username :: string
  email :: string
  vehicles :: "(string \<times> string) list"
  role :: string
  rfid :: "string option"

text \<open>
  The body of the login response, by the two interfaces the page declares:
  \<^verbatim>\<open>LoginResponse\<close> with \<open>status\<close>, \<open>data.user\<close> and \<open>data.token\<close>, and
  \<^verbatim>\<open>ErrorResponse\<close> with \<open>status\<close> and \<open>message\<close>.
\<close>

datatype loginBody =
    LoginResponse string user string
  | ErrorResponse string string

fun body_status :: "loginBody \<Rightarrow> string" where
  "body_status (LoginResponse st u tok) = st"
| "body_status (ErrorResponse st msg) = st"

text \<open>\<^verbatim>\<open>(data as ErrorResponse).message\<close>, undefined on a \<^verbatim>\<open>LoginResponse\<close>.\<close>

fun body_message :: "loginBody \<Rightarrow> string option" where
  "body_message (LoginResponse st u tok) = None"
| "body_message (ErrorResponse st msg) = Some msg"

record loginPage =
  email :: string
  password :: string
  loading :: bool
  error :: string
  roleError :: string

text \<open>What a submit leaves behind.\<close>

record loginOutcome =
  form :: loginPage
  stored :: localStorage
  pushed :: "string list"
  fetches :: "fetchCall list"

definition login_call :: "loginPage \<Rightarrow> fetchCall" where
  "login_call s =
     \<lparr>target = ''https://smartpark-backend.vercel.app/api/users/login'', params = [],
      init = \<lparr>http_method = Some ''POST'',
               headers = Some (Record [(''Content-Type'', Text ''application/json'')]),
               body = Some [(''email'', loginPage.email s), (''password'', password s)]\<rparr>\<rparr>"

text \<open>
  The statements of the try block after the response has arrived. \<open>Inl\<close> is a throw,
  with the storage as the statements before it left it; \<open>Inr\<close> carries the form, the
  storage, the routes pushed, and whether the block ended by \<^verbatim>\<open>return\<close>.
  \<^verbatim>\<open>JSON.stringify\<close> is a parameter.
\<close>

definition login_try ::
  "(user \<Rightarrow> string) \<Rightarrow> localStorage \<Rightarrow> loginPage \<Rightarrow> loginBody response
     \<Rightarrow> (thrown \<times> localStorage) + (loginPage \<times> localStorage \<times> string list)" where
  "login_try JSON_stringify store s res =
     (case json_result res of
        Inl e \<Rightarrow> Inl (e, store)
      | Inr d \<Rightarrow>
          if ok res \<and> body_status d = ''success'' then
            (case d of
               ErrorResponse st msg \<Rightarrow>
                 Inl (ErrorObject ''Cannot read properties of undefined'', store)
             | LoginResponse st u tok \<Rightarrow>
                 if role u \<noteq> ''admin'' then
                   Inr (s\<lparr>roleError := ''Access denied. You are not authorized as admin.'',
                           loading := False\<rparr>, store, [])
                 else
                   (case setItem store ''token'' tok of
                      Inl e \<Rightarrow> Inl (e, store)
                    | Inr store1 \<Rightarrow>
                        (case setItem store1 ''user'' (JSON_stringify u) of
                           Inl e \<Rightarrow> Inl (e, store1)
                         | Inr store2 \<Rightarrow> Inr (s, store2, [''/dashboard'']))))
          else
            Inr (s\<lparr>loginPage.error :=
                     (if truthy_str (body_message d) then the (body_message d)
                      else ''Login failed.'')\<rparr>, store, []))"

definition login_handleSubmit ::
  "(user \<Rightarrow> string) \<Rightarrow> (fetchCall \<Rightarrow> loginBody fetched) \<Rightarrow> localStorage \<Rightarrow> loginPage
     \<Rightarrow> loginOutcome" where
  "login_handleSubmit JSON_stringify net store s0 =
     (let s = s0\<lparr>loading := True, loginPage.error := [], roleError := []\<rparr>
      in if loginPage.email s = [] \<or> password s = [] then
           \<lparr>form = s\<lparr>loginPage.error := ''Email and password are required'', loading := False\<rparr>,
            stored = store, pushed = [], fetches = []\<rparr>
         else
           (case (case net (login_call s) of
                    Rejected e \<Rightarrow> Inl (e, store)
                  | Resolved res \<Rightarrow> login_try JSON_stringify store s res) of
              Inl (e, store') \<Rightarrow>
                \<lparr>form = s\<lparr>loginPage.error := ''Network error. Please try again.'',
                           loading := False\<rparr>,
                 stored = store', pushed = [], fetches = [login_call s]\<rparr>
            | Inr (s', store', routes) \<Rightarrow>
                \<lparr>form = s'\<lparr>loading := False\<rparr>,
                 stored = store', pushed = routes, fetches = [login_call s]\<rparr>))"

section \<open>The RFID modal (components/UsersManagement.tsx)\<close>

definition sample_user :: user where
  "sample_user =
     \<lparr>userID = ''U1'', username = ''siti'', email = ''siti@example.com'', vehicles = [],
      role = ''user'', rfid = None\<rparr>"

record rfidModal =
  rfidValue :: string
  isLoading :: bool
  error :: "string option"

text \<open>
  What a handler of the modal does besides setting its own state: calls of
  \<^verbatim>\<open>fetch\<close> and of the two callbacks of the parent (\<^verbatim>\<open>onClose\<close> closes the modal).
\<close>

datatype modal_effect = Fetch fetchCall | OnSuccess | OnClose

text \<open>
  The body of an error response is read for its \<open>message\<close>; \<open>None\<close> is a body
  without one. \<^verbatim>\<open>response.json().catch(() => ({}))\<close> turns a body that is not JSON
  into the empty object.
\<close>

definition rfid_failure :: "string option response \<Rightarrow> thrown" where
  "rfid_failure r =
     (let errorData_message = (case json_result r of Inl e \<Rightarrow> None | Inr m \<Rightarrow> m);
          st = http_status r
      in if st = 401 then ErrorObject ''Authentication failed. Please login again.''
         else if st = 403 then ErrorObject ''Access denied. Admin privileges required.''
         else if st = 404 then ErrorObject ''User not found.''
         else if st = 409 then ErrorObject ''RFID already assigned to another user.''
         else ErrorObject (if truthy_str errorData_message then the errorData_message
                           else ''HTTP error! status: '' @ show_nat st))"

text \<open>
  The submit handler of the modal; its first argument is the platform's \<^verbatim>\<open>trim\<close>.
  (\<^verbatim>\<open>e.preventDefault()\<close> only stops the browser from submitting the form itself.) The guard comes before every state update; after
  it the handler sets the loading flag, clears the error, runs the try block, and
  the finally block clears the loading flag.
\<close>

definition rfid_call :: "(string \<Rightarrow> string) \<Rightarrow> string \<Rightarrow> user \<Rightarrow> string \<Rightarrow> fetchCall" where
  "rfid_call trim auth u tag =
     \<lparr>target = ''https://smartpark-backend.vercel.app/api/users/admin/rfid'', params = [],
      init = bearer_init ''POST'' auth (Some [(''userID'', user.userID u), (''rfid'', trim tag)])\<rparr>"

definition rfid_handleSubmit ::
  "(string \<Rightarrow> string) \<Rightarrow> (thrown + string option) \<Rightarrow> (fetchCall \<Rightarrow> string option fetched) \<Rightarrow> user option \<Rightarrow> rfidModal
     \<Rightarrow> rfidModal \<times> modal_effect list" where
  "rfid_handleSubmit trim auth net usr s0 =
     (if usr = None \<or> trim (rfidValue s0) = [] then (s0, [])
      else
        let s = s0\<lparr>rfidModal.isLoading := True, rfidModal.error := None\<rparr>;
            (effects, thrown_value) =
              (case auth of
                 Inl e \<Rightarrow> ([], Some e)
               | Inr tok \<Rightarrow>
                   if \<not> truthy_str tok
                   then ([], Some (ErrorObject ''No authentication token found''))
                   else
                     let call = rfid_call trim (the tok) (the usr) (rfidValue s)
                     in (case net call of
                           Rejected e \<Rightarrow> ([Fetch call], Some e)
                         | Resolved r \<Rightarrow>
                             if \<not> ok r then ([Fetch call], Some (rfid_failure r))
                             else ([Fetch call, OnSuccess, OnClose], None)));
            s' = (case thrown_value of
                    None \<Rightarrow> s
                  | Some err \<Rightarrow>
                      s\<lparr>rfidModal.error :=
                          Some (message_or err ''An error occurred while managing RFID'')\<rparr>)
        in (s'\<lparr>rfidModal.isLoading := False\<rparr>, effects))"

section \<open>Properties of the list-view fetches\<close>

lemma fetchUsers_non_success:
  assumes "tok \<noteq> []" "net (users_call tok) = Resolved r" "ok r"
    "json_result r = Inr result" "status result \<noteq> ''success''"
  shows "fst (fetchUsers (Inr (Some tok)) net)
           = [SetError None, SetError (Some ''Failed to fetch users data''),
              SetIsLoading False]"
  using assms
  by (simp add: fetchUsers_def get_json_def require_success_def catch_finally_def)

lemma fetchActive_non_success:
  assumes "tok \<noteq> []" "net (active_call tok) = Resolved r" "ok r"
    "json_result r = Inr result" "status result \<noteq> ''success''"
  shows "fst (fetchActiveParkingSessions (Inr (Some tok)) net)
           = [SetError None, SetError (Some ''Failed to fetch active parking sessions''),
              SetIsLoading False]"
  using assms
  by (simp add: fetchActiveParkingSessions_def get_json_def require_success_def
      catch_finally_def)

lemma fetchHistory_non_success:
  assumes "tok \<noteq> []" "history_params toISOString s = Inr ps"
    "net (history_call ps tok) = Resolved r" "ok r"
    "json_result r = Inr result" "status result \<noteq> ''success''"
  shows "fst (fetchParkingHistory toISOString s (Inr (Some tok)) net)
           = [SetIsLoading True, SetError None,
              SetError (Some ''Failed to fetch parking history''), SetIsLoading False]"
  using assms
  by (simp add: fetchParkingHistory_def get_json_def require_success_def catch_finally_def)

text \<open>
  Claim C1. A fetch of a list view (users, active sessions, parking history) with a
  token, whose response is 2xx and whose envelope has a status other than
  \<open>success\<close>, leaves the records of the view as they were before the call (and, in
  the history view, the pagination), and sets the error to a message that is not
  empty, namely the failure message of that view.
\<close>

theorem non_success_keeps_items:
  assumes "tok \<noteq> []"
    and "net_u (users_call tok) = Resolved ru" "ok ru" "json_result ru = Inr result_u"
        "status result_u \<noteq> ''success''"
    and "net_a (active_call tok) = Resolved ra" "ok ra" "json_result ra = Inr result_a"
        "status result_a \<noteq> ''success''"
    and "history_params toISOString sh = Inr ps"
        "net_h (history_call ps tok) = Resolved rh" "ok rh" "json_result rh = Inr result_h"
        "status result_h \<noteq> ''success''"
  shows "listView.records (run_setters (fst (fetchUsers (Inr (Some tok)) net_u)) su)
           = listView.records su
       \<and> listView.error (run_setters (fst (fetchUsers (Inr (Some tok)) net_u)) su)
           = Some ''Failed to fetch users data''
       \<and> listView.records
             (run_setters (fst (fetchActiveParkingSessions (Inr (Some tok)) net_a)) sa)
           = listView.records sa
       \<and> listView.error
             (run_setters (fst (fetchActiveParkingSessions (Inr (Some tok)) net_a)) sa)
           = Some ''Failed to fetch active parking sessions''
       \<and> listView.records
             (run_history_setters
                (fst (fetchParkingHistory toISOString sh (Inr (Some tok)) net_h)) sh)
           = listView.records sh
       \<and> historyView.pagination
             (run_history_setters
                (fst (fetchParkingHistory toISOString sh (Inr (Some tok)) net_h)) sh)
           = historyView.pagination sh
       \<and> listView.error
             (run_history_setters
                (fst (fetchParkingHistory toISOString sh (Inr (Some tok)) net_h)) sh)
           = Some ''Failed to fetch parking history''"
  using assms
  by (simp add: fetchUsers_non_success fetchActive_non_success fetchHistory_non_success
      run_setters_def run_history_setters_def)

lemma sample_history_params:
  "history_params Inr sample_history
     = Inr [(''limit'', ''20''), (''page'', ''1''), (''sortBy'', ''in_date''),
            (''sortOrder'', ''desc'')]"
  by (simp add: history_params_def sample_history_def initial_history_def show_int_def)

theorem non_success_keeps_items_witness:
  "listView.records (run_setters (fst (fetchUsers (Inr (Some ''t''))
        (answering 200 (Inr failed_list)))) sample_view) = listView.records sample_view
   \<and> listView.error (run_setters (fst (fetchUsers (Inr (Some ''t''))
        (answering 200 (Inr failed_list)))) sample_view)
       = Some ''Failed to fetch users data''
   \<and> listView.records (run_setters (fst (fetchActiveParkingSessions (Inr (Some ''t''))
        (answering 200 (Inr failed_list)))) sample_view) = listView.records sample_view
   \<and> listView.records (run_history_setters (fst (fetchParkingHistory Inr sample_history
        (Inr (Some ''t'')) (answering 200 (Inr failed_page)))) sample_history)
       = listView.records sample_history
   \<and> listView.error (run_history_setters (fst (fetchParkingHistory Inr sample_history
        (Inr (Some ''t'')) (answering 200 (Inr failed_page)))) sample_history)
       = Some ''Failed to fetch parking history''"
proof -
  have t: "''t'' \<noteq> []" by simp
  have n1: "answering 200 (Inr failed_list) (users_call ''t'')
              = Resolved (Response 200 (Inr failed_list))"
    by (simp add: answering_def)
  have n2: "answering 200 (Inr failed_list) (active_call ''t'')
              = Resolved (Response 200 (Inr failed_list))"
    by (simp add: answering_def)
  have n3: "answering 200 (Inr failed_page)
              (history_call [(''limit'', ''20''), (''page'', ''1''), (''sortBy'', ''in_date''),
                             (''sortOrder'', ''desc'')] ''t'')
            = Resolved (Response 200 (Inr failed_page))"
    by (simp add: answering_def)
  have o1: "ok (Response 200 (Inr failed_list))" by (simp add: ok_def)
  have o3: "ok (Response 200 (Inr failed_page))" by (simp add: ok_def)
  have j1: "json_result (Response 200 (Inr failed_list)) = Inr failed_list" by simp
  have j3: "json_result (Response 200 (Inr failed_page)) = Inr failed_page" by simp
  have s1: "status failed_list \<noteq> ''success''" by (simp add: failed_list_def)
  have s3: "status failed_page \<noteq> ''success''" by (simp add: failed_page_def)
  show ?thesis
    using non_success_keeps_items
        [where tok = "''t''" and net_u = "answering 200 (Inr failed_list)"
           and net_a = "answering 200 (Inr failed_list)"
           and net_h = "answering 200 (Inr failed_page)"
           and toISOString = Inr and sh = sample_history
           and su = sample_view and sa = sample_view,
         OF t n1 o1 j1 s1 n2 o1 j1 s1 sample_history_params n3 o3 j3 s3]
    by simp
qed

lemma run_setters_snoc: "run_setters (cs @ [c]) s = apply_setter c (run_setters cs s)"
  by (simp add: run_setters_def)

lemma run_history_setters_snoc:
  "run_history_setters (cs @ [c]) s = apply_history_setter c (run_history_setters cs s)"
  by (simp add: run_history_setters_def)

lemma fetchUsers_ends:
  "\<exists>cs. fst (fetchUsers auth net) = cs @ [SetIsLoading False]"
  by (simp add: fetchUsers_def catch_finally_def split: prod.splits)

lemma fetchActive_ends:
  "\<exists>cs. fst (fetchActiveParkingSessions auth net) = cs @ [SetIsLoading False]"
  by (simp add: fetchActiveParkingSessions_def catch_finally_def split: prod.splits)

lemma fetchHistory_ends:
  "\<exists>cs. fst (fetchParkingHistory toISOString s auth net) = cs @ [SetIsLoading False]"
  by (simp add: fetchParkingHistory_def catch_finally_def split: prod.splits)

text \<open>
  Claim C9. Whatever the token read and the network do (a token or none, a throw of
  the read, a rejected fetch, any status code, a body that is not JSON, any
  envelope), the last setter call of each of the three fetches is
  \<^verbatim>\<open>setIsLoading(false)\<close>, and the view is not loading afterwards.
\<close>

theorem loading_cleared_last:
  "last (fst (fetchUsers auth net_u)) = SetIsLoading False
   \<and> listView.isLoading (run_setters (fst (fetchUsers auth net_u)) su) = False
   \<and> last (fst (fetchActiveParkingSessions auth net_a)) = SetIsLoading False
   \<and> listView.isLoading (run_setters (fst (fetchActiveParkingSessions auth net_a)) sa)
       = False
   \<and> last (fst (fetchParkingHistory toISOString sh auth net_h)) = SetIsLoading False
   \<and> listView.isLoading
         (run_history_setters (fst (fetchParkingHistory toISOString sh auth net_h)) sh)
       = False"
proof -
  obtain cu where u: "fst (fetchUsers auth net_u) = cu @ [SetIsLoading False]"
    using fetchUsers_ends by blast
  obtain ca where a: "fst (fetchActiveParkingSessions auth net_a) = ca @ [SetIsLoading False]"
    using fetchActive_ends by blast
  obtain ch where h:
    "fst (fetchParkingHistory toISOString sh auth net_h) = ch @ [SetIsLoading False]"
    using fetchHistory_ends by blast
  show ?thesis
    by (simp add: u a h run_setters_snoc run_history_setters_snoc)
qed

section \<open>Properties of the Auth Store\<close>

subsection \<open>The guarded copy never throws\<close>

lemma getStoredToken_total:
  "getStoredToken b
     = Inr (if has_window b
            then (case getItem (storage b) ''token'' of Inr v \<Rightarrow> v | Inl e \<Rightarrow> None)
            else None)"
  by (simp add: getStoredToken_def split: sum.splits)

lemma getStoredUser_never_throws: "\<exists>v. getStoredUser JSON_parse b = Inr v"
  by (simp add: getStoredUser_def split: sum.splits)

lemma getStoredUser_corrupt:
  "map_of kvs ''user'' = Some s \<Longrightarrow> JSON_parse s = Inl e \<Longrightarrow>
   getStoredUser JSON_parse \<lparr>has_window = w, storage = Store kvs\<rparr> = Inr JNull"
  by (simp add: getStoredUser_def parse_if_present_def split: sum.splits)

lemma getStoredUser_unavailable:
  "getStoredUser JSON_parse \<lparr>has_window = w, storage = Unavailable e\<rparr> = Inr JNull"
  by (simp add: getStoredUser_def)

lemma isAuthenticated_never_throws: "\<exists>r. isAuthenticated JSON_parse b = Inr r"
  by (cases "getStoredToken b"; cases "getStoredUser JSON_parse b")
     (auto simp: isAuthenticated_def)

lemma isAuthenticated_unavailable:
  "isAuthenticated JSON_parse \<lparr>has_window = w, storage = Unavailable e\<rparr> = Inr False"
  by (simp add: isAuthenticated_def getStoredToken_def getStoredUser_def is_admin_session_def)

lemma isAuthenticated_corrupt:
  "map_of kvs ''user'' = Some s \<Longrightarrow> JSON_parse s = Inl e \<Longrightarrow>
   isAuthenticated JSON_parse \<lparr>has_window = w, storage = Store kvs\<rparr> = Inr False"
  by (simp add: isAuthenticated_def getStoredToken_def getStoredUser_corrupt
      is_admin_session_def)

subsection \<open>The plain copy lets the exception through\<close>

lemma getStoredUser_plain_corrupt:
  "map_of kvs ''user'' = Some s \<Longrightarrow> s \<noteq> [] \<Longrightarrow> JSON_parse s = Inl e \<Longrightarrow>
   getStoredUser_plain JSON_parse \<lparr>has_window = True, storage = Store kvs\<rparr> = Inl e"
  by (simp add: getStoredUser_plain_def parse_if_present_def)

lemma getStoredToken_plain_unavailable:
  "getStoredToken_plain \<lparr>has_window = True, storage = Unavailable e\<rparr> = Inl e"
  by (simp add: getStoredToken_plain_def)

text \<open>
  Claim C6. The reads of the Auth Store are to return null, and \<open>isAuthenticated\<close>
  false, when the stored user record is not JSON or the storage is unavailable. The
  copy of the store without try/catch does not: with the text \<open>{oops\<close> stored under
  \<open>user\<close>, \<open>getStoredUser\<close> and \<open>isAuthenticated\<close> throw the SyntaxError of the parser,
  and with the storage unavailable \<open>getStoredToken\<close> throws the error of the storage.
  On the same inputs the copy with try/catch returns null, false and null.
\<close>

theorem plain_store_propagates:
  "getStoredUser_plain (parse_table [])
       \<lparr>has_window = True, storage = Store [(''user'', ''{oops'')]\<rparr>
     = Inl (ErrorObject ''Unexpected token in JSON'')
   \<and> isAuthenticated_plain (parse_table [])
       \<lparr>has_window = True, storage = Store [(''user'', ''{oops'')]\<rparr>
     = Inl (ErrorObject ''Unexpected token in JSON'')
   \<and> getStoredToken_plain
       \<lparr>has_window = True, storage = Unavailable (ErrorObject ''SecurityError'')\<rparr>
     = Inl (ErrorObject ''SecurityError'')
   \<and> getStoredUser (parse_table [])
       \<lparr>has_window = True, storage = Store [(''user'', ''{oops'')]\<rparr>
     = Inr JNull
   \<and> isAuthenticated (parse_table [])
       \<lparr>has_window = True, storage = Store [(''user'', ''{oops'')]\<rparr>
     = Inr False
   \<and> getStoredToken
       \<lparr>has_window = True, storage = Unavailable (ErrorObject ''SecurityError'')\<rparr>
     = Inr None"
  by (simp add: getStoredUser_plain_def isAuthenticated_plain_def getStoredToken_plain_def
      getStoredUser_def isAuthenticated_def getStoredToken_def is_admin_session_def
      parse_if_present_def parse_table_def)

section \<open>Properties of the authenticated request helper\<close>







lemma pairs_are_spread_by_index:
  "authenticatedFetch \<lparr>has_window = True, storage = Store []\<rparr> ''/api/users/all''
       \<lparr>http_method = None, headers = Some (Pairs [(''X-Trace'', ''1'')]), body = None\<rparr>
     = Inr (''/api/users/all'',
            \<lparr>http_method = None,
             headers = Some (Record [(''Content-Type'', Text ''application/json''),
                                     (''0'', Entry ''X-Trace'' ''1'')]),
             body = None\<rparr>)"
  by (simp add: authenticatedFetch_def getStoredToken_def merged_headers_def bearer_part_def)

section \<open>Properties of the route guard\<close>

lemma middleware_protected:
  "prefix ''/dashboard'' (pathname r) \<Longrightarrow> \<not> truthy_str (map_of (cookies r) ''token'') \<Longrightarrow>
   \<not> truthy_str (map_option (replace_first ''Bearer '' [])
                   (map_of (req_headers r) ''Authorization'')) \<Longrightarrow>
   middleware r = Redirect ''/login''"
  by (simp add: middleware_def protectedPaths_def or_else_def)

lemma matcher_misses_dashboard:
  "prefix ''/dashboard'' p \<Longrightarrow> \<not> list_ex (\<lambda>pat. matches pat p) matcher"
  by (auto simp: matcher_def matches_def prefix_def)

lemma dashboard_mount_redirects:
  "isAuthenticated JSON_parse b = Inr False \<Longrightarrow>
   dashboard_mount JSON_parse b = Inr ([''/login''], None)"
  by (simp add: dashboard_mount_def redirectIfNotAuthenticated_def)

lemma isAuthenticated_iff:
  "isAuthenticated JSON_parse b = Inr r \<Longrightarrow>
   r = (\<exists>token user. getStoredToken b = Inr token \<and> getStoredUser JSON_parse b = Inr user
                     \<and> is_admin_session token user)"
  by (auto simp add: isAuthenticated_def split: sum.splits)

lemma page_check_redirects:
  assumes "\<not> (\<exists>token user. getStoredToken b = Inr token
                     \<and> getStoredUser JSON_parse b = Inr user
                     \<and> is_admin_session token user)"
  shows "dashboard_mount JSON_parse b = Inr ([''/login''], None)"
proof -
  obtain r where r: "isAuthenticated JSON_parse b = Inr r"
    using isAuthenticated_never_throws by blast
  with assms isAuthenticated_iff [OF r] have "r = False" by simp
  with r show ?thesis by (simp add: dashboard_mount_redirects)
qed

text \<open>
  Claim C2. A request for a path under \<open>/dashboard\<close> that carries no token is to be
  redirected to the login route at the edge. The function \<open>middleware\<close> would do so
  (\<open>middleware_protected\<close>), but \<open>config.matcher\<close> names \<open>/admin/:path*\<close> and
  \<open>/login\<close> only, so the middleware never runs for such a path: the request for
  \<open>/dashboard\<close> without cookie and without Authorization header goes through.
  The check of the page does fire (\<open>page_check_redirects\<close>).
\<close>

theorem edge_skips_dashboard:
  "edge \<lparr>pathname = ''/dashboard'', cookies = [], req_headers = []\<rparr> = Next
   \<and> middleware \<lparr>pathname = ''/dashboard'', cookies = [], req_headers = []\<rparr>
       = Redirect ''/login''"
  by (simp add: edge_def matcher_def matches_def middleware_def protectedPaths_def
      or_else_def)

text \<open>
  Claim C10, as stated, fails: a request for \<open>/login\<close> that carries a token cookie
  whose value is empty is not redirected; it goes through.
\<close>

theorem login_route_empty_cookie:
  "edge \<lparr>pathname = ''/login'', cookies = [(''token'', [])], req_headers = []\<rparr> = Next"
  by (simp add: edge_def matcher_def matches_def middleware_def protectedPaths_def)

text \<open>
  Claim C10, amended. For a request whose path is exactly \<open>/login\<close> the middleware
  runs (the matcher names the path), and it redirects to \<open>/dashboard\<close> when the
  request carries a token cookie whose value is not empty; a request without a token
  cookie, or with an empty one, goes through.
\<close>

theorem login_route:
  "pathname r = ''/login'' \<Longrightarrow>
   edge r = (if truthy_str (map_of (cookies r) ''token'') then Redirect ''/dashboard''
             else Next)
   \<and> middleware r = edge r"
  by (simp add: edge_def matcher_def matches_def middleware_def protectedPaths_def Let_def)

theorem login_route_witness:
  "edge \<lparr>pathname = ''/login'', cookies = [(''token'', ''abc'')], req_headers = []\<rparr>
     = Redirect ''/dashboard''
   \<and> edge \<lparr>pathname = ''/login'', cookies = [], req_headers = []\<rparr> = Next"
  using login_route
          [of "\<lparr>pathname = ''/login'', cookies = [(''token'', ''abc'')], req_headers = []\<rparr>"]
        login_route [of "\<lparr>pathname = ''/login'', cookies = [], req_headers = []\<rparr>"]
  by simp

section \<open>Properties of the parking-history filters\<close>

text \<open>
  Claim C3, as stated, fails: in the initial view, where the page is 1, Apply Filters
  leaves every dependency of the fetch as it was, so the effect does not run and no
  fetch is issued.
\<close>

theorem applyFilters_on_page_one_no_fetch:
  "handle_then_render handleApplyFilters Inr (Inr (Some ''t'')) offline
       (initial_history :: nat historyView)
     = (initial_history, [], [])"
  by (simp add: handle_then_render_def handleApplyFilters_def effect_runs_def fetch_deps_def
      initial_history_def)

text \<open>
  Claim C3, amended. For every prior page, Apply Filters sets the page to 1 and
  leaves the limit and the filters as they are. The render that follows runs the
  fetch, from the state with page 1 and those filters, exactly when the prior page
  was not 1; when it was 1 already, no fetch is issued.
\<close>

theorem applyFilters_page_and_fetch:
  "page (historyView.pagination
           (fst (handle_then_render handleApplyFilters toISOString auth net s))) = 1
   \<and> snd (handle_then_render handleApplyFilters toISOString auth net s)
       = (if page (historyView.pagination s) = 1 then ([], [])
          else fetchParkingHistory toISOString (handleApplyFilters s) auth net)
   \<and> fetch_deps (handleApplyFilters s)
       = (1, limit (historyView.pagination s), selectedPaymentStatus s, startDate s,
          endDate s, sortBy s, sortOrder s)"
  by (simp add: handle_then_render_def handleApplyFilters_def effect_runs_def fetch_deps_def
      Let_def)

theorem applyFilters_page_and_fetch_witness:
  "snd (snd (handle_then_render handleApplyFilters Inr (Inr (Some ''t'')) offline
      ((initial_history :: nat historyView)
         \<lparr>historyView.pagination := \<lparr>total = 45, page = 2, limit = 20, pages = 3\<rparr>\<rparr>)))
   = [history_call [(''limit'', ''20''), (''page'', ''1''), (''sortBy'', ''in_date''),
                    (''sortOrder'', ''desc'')] ''t'']"
  using applyFilters_page_and_fetch
          [of Inr "Inr (Some ''t'')" offline
              "(initial_history :: nat historyView)
                 \<lparr>historyView.pagination := \<lparr>total = 45, page = 2, limit = 20, pages = 3\<rparr>\<rparr>"]
  by (simp add: handleApplyFilters_def initial_history_def fetchParkingHistory_def
      get_json_def history_params_def show_int_def offline_def)

lemma applyFilters_on_any_page_one:
  "page (historyView.pagination s) = 1 \<Longrightarrow>
   snd (handle_then_render handleApplyFilters toISOString auth net s) = ([], [])"
  by (simp add: handle_then_render_def handleApplyFilters_def effect_runs_def fetch_deps_def)

lemma str_includes_Nil: "str_includes s []"
  by (induction s) simp_all

text \<open>
  Claim C4, as stated, fails: the search keeps a record when one field matches, not
  only when every field does. The sample record is kept for the term \<open>b 12\<close>, which
  occurs in its plate and not in its e-mail address; the sample session is kept for
  \<open>u7\<close>, which occurs in its user identifier and not in its plate. And with the
  empty term the sample session, whose payment is pending, is dropped when the
  payment-status selection is \<open>paid\<close>. (The samples are ASCII text, on which
  \<^verbatim>\<open>toLowerCase\<close> is \<open>ascii_toLowerCase\<close>.)
\<close>

theorem search_keeps_on_one_field:
  "history_keeps ascii_toLowerCase ''b 12'' sample_record
   \<and> \<not> str_includes (ascii_toLowerCase (user_email sample_record)) (ascii_toLowerCase ''b 12'')
   \<and> filteredRecords ascii_toLowerCase ''b 12'' [sample_record] = [sample_record]
   \<and> filteredSessions ascii_toLowerCase ''u7'' ''all'' [sample_session] = [sample_session]
   \<and> \<not> str_includes (ascii_toLowerCase (activeParkingSession.vehicle_plate sample_session))
           (ascii_toLowerCase ''u7'')
   \<and> filteredSessions ascii_toLowerCase [] ''paid'' [sample_session] = []"
  by (simp add: history_keeps_def sample_record_def ascii_toLowerCase_def lower_char_def
      filteredRecords_def filteredSessions_def session_matchesSearch_def
      session_matchesPaymentStatus_def sample_session_def)

lemma filteredSessions_empty_term:
  "toLowerCase [] = [] \<Longrightarrow>
   filteredSessions toLowerCase [] selected ss = filter (session_matchesPaymentStatus selected) ss"
  by (simp add: filteredSessions_def session_matchesSearch_def str_includes_Nil)

text \<open>
  Claim C4, amended. Whatever \<^verbatim>\<open>toLowerCase\<close> computes (it maps the empty string to
  itself), the history search keeps a record exactly when the search term is empty or
  occurs, after lower-casing both, in at least one of the text fields (plate,
  vehicle description, user name, e-mail); with the empty term every record is kept.
  The active-sessions search keeps a session exactly when the term so occurs in at
  least one of its fields (plate, vehicle description, user identifier) and the
  session passes the payment-status selection; with the empty term exactly the
  sessions that pass the selection are kept, all of them when the selection is
  \<open>all\<close>.
\<close>

theorem search_is_disjunction:
  assumes "toLowerCase [] = []"
  shows "history_keeps toLowerCase search r
     = (search = [] \<or> list_ex (\<lambda>f. str_includes (toLowerCase f) (toLowerCase search))
                       (history_fields r))
   \<and> filteredRecords toLowerCase [] rs = rs
   \<and> filteredSessions toLowerCase search selected ss
     = filter (\<lambda>x. list_ex (\<lambda>f. str_includes (toLowerCase f) (toLowerCase search))
                     (session_fields x)
                 \<and> session_matchesPaymentStatus selected x) ss
   \<and> filteredSessions toLowerCase [] selected ss
     = filter (session_matchesPaymentStatus selected) ss
   \<and> filteredSessions toLowerCase [] ''all'' ss = ss"
proof -
  have h: "history_keeps toLowerCase search r
     = (search = [] \<or> list_ex (\<lambda>f. str_includes (toLowerCase f) (toLowerCase search))
                       (history_fields r))"
    by (simp add: history_keeps_def history_fields_def)
  have r: "filteredRecords toLowerCase [] rs = rs"
    by (simp add: filteredRecords_def history_keeps_def)
  have f: "filteredSessions toLowerCase search selected ss
     = filter (\<lambda>x. list_ex (\<lambda>f. str_includes (toLowerCase f) (toLowerCase search))
                     (session_fields x)
                 \<and> session_matchesPaymentStatus selected x) ss"
    by (simp add: filteredSessions_def session_matchesSearch_def session_fields_def)
  have e: "filteredSessions toLowerCase [] selected ss
     = filter (session_matchesPaymentStatus selected) ss"
    using assms by (rule filteredSessions_empty_term)
  have a: "filteredSessions toLowerCase [] ''all'' ss = ss"
    using assms
    by (simp add: filteredSessions_empty_term session_matchesPaymentStatus_def)
  from h r f e a show ?thesis by simp
qed

theorem search_is_disjunction_witness:
  "history_keeps ascii_toLowerCase ''SEDAN'' sample_record
   \<and> filteredRecords ascii_toLowerCase [] [sample_record] = [sample_record]
   \<and> filteredSessions ascii_toLowerCase ''SEDAN'' ''pending'' [sample_session] = [sample_session]
   \<and> filteredSessions ascii_toLowerCase [] ''all'' [sample_session] = [sample_session]"
proof -
  have e: "ascii_toLowerCase [] = []" by (simp add: ascii_toLowerCase_def)
  show ?thesis
    using search_is_disjunction
            [where toLowerCase = ascii_toLowerCase and search = "''SEDAN''"
               and r = sample_record and rs = "[sample_record]"
               and selected = "''pending''" and ss = "[sample_session]", OF e]
    by (simp add: history_fields_def session_fields_def sample_record_def sample_session_def
        ascii_toLowerCase_def lower_char_def session_matchesPaymentStatus_def)
qed

section \<open>Properties of the login page\<close>

text \<open>
  Claim C7. When the login request is answered 2xx with status \<open>success\<close> and a user
  whose role is not \<open>admin\<close>, the submit sets the role-denied message, leaves the
  storage as it was (neither the token nor the user is written), pushes no route,
  and ends with the loading flag cleared.
\<close>

theorem non_admin_login:
  assumes "loginPage.email s \<noteq> []" "password s \<noteq> []"
    and "net (login_call s) = Resolved res" "ok res"
    and "json_result res = Inr (LoginResponse ''success'' u tok)"
    and "role u \<noteq> ''admin''"
  shows "roleError (form (login_handleSubmit JSON_stringify net store s))
           = ''Access denied. You are not authorized as admin.''
       \<and> stored (login_handleSubmit JSON_stringify net store s) = store
       \<and> pushed (login_handleSubmit JSON_stringify net store s) = []
       \<and> loading (form (login_handleSubmit JSON_stringify net store s)) = False"
proof -
  have c: "login_call (s\<lparr>loading := True, loginPage.error := [], roleError := []\<rparr>)
             = login_call s"
    by (simp add: login_call_def)
  show ?thesis
    using assms by (simp add: login_handleSubmit_def Let_def c login_try_def)
qed

theorem non_admin_login_witness:
  "roleError (form (login_handleSubmit username
        (answering 200 (Inr (LoginResponse ''success'' sample_user ''tok''))) (Store [])
        \<lparr>email = ''siti@example.com'', password = ''pw'', loading = False, error = [],
         roleError = []\<rparr>))
     = ''Access denied. You are not authorized as admin.''
   \<and> stored (login_handleSubmit username
        (answering 200 (Inr (LoginResponse ''success'' sample_user ''tok''))) (Store [])
        \<lparr>email = ''siti@example.com'', password = ''pw'', loading = False, error = [],
         roleError = []\<rparr>)
     = Store []
   \<and> pushed (login_handleSubmit username
        (answering 200 (Inr (LoginResponse ''success'' sample_user ''tok''))) (Store [])
        \<lparr>email = ''siti@example.com'', password = ''pw'', loading = False, error = [],
         roleError = []\<rparr>)
     = []"
  using non_admin_login
          [where s = "\<lparr>email = ''siti@example.com'', password = ''pw'', loading = False,
                        error = [], roleError = []\<rparr>"
             and net = "answering 200 (Inr (LoginResponse ''success'' sample_user ''tok''))"
             and res = "Response 200 (Inr (LoginResponse ''success'' sample_user ''tok''))"
             and u = sample_user and tok = "''tok''" and store = "Store []"
             and JSON_stringify = username]
  by (simp add: answering_def ok_def sample_user_def)

section \<open>Properties of the RFID modal\<close>

text \<open>
  Claim C8. Whatever \<^verbatim>\<open>trim\<close> computes: when the tag, trimmed, is empty (the empty
  string or white space only), the submit of the RFID modal calls neither \<^verbatim>\<open>fetch\<close>
  nor a callback of the parent (so the modal stays open), and leaves the state of
  the modal (value, loading flag, error) as it was.
\<close>

theorem blank_tag_no_request:
  "trim (rfidValue s) = [] \<Longrightarrow> rfid_handleSubmit trim auth net usr s = (s, [])"
  by (simp add: rfid_handleSubmit_def)

theorem blank_tag_no_request_witness:
  "rfid_handleSubmit ascii_trim (Inr (Some ''t'')) offline (Some sample_user)
       \<lparr>rfidValue = ''   '', isLoading = False, error = None\<rparr>
     = (\<lparr>rfidValue = ''   '', isLoading = False, error = None\<rparr>, [])"
  using blank_tag_no_request
          [of ascii_trim "\<lparr>rfidValue = ''   '', isLoading = False, error = None\<rparr>"
              "Inr (Some ''t'')" offline "Some sample_user"]
  by (simp add: ascii_trim_def is_space_def)

lemma nonblank_tag_requests:
  "rfid_handleSubmit ascii_trim (Inr (Some ''t'')) offline (Some sample_user)
       \<lparr>rfidValue = '' A1 '', isLoading = False, error = None\<rparr>
     = (\<lparr>rfidValue = '' A1 '', isLoading = False, error = Some ''Failed to fetch''\<rparr>,
        [Fetch (rfid_call ascii_trim ''t'' sample_user '' A1 '')])"
  by (simp add: rfid_handleSubmit_def ascii_trim_def is_space_def offline_def)

end
